theory Spec2Isabelle
  imports Main "HOL-Library.Char_ord" "HOL-Library.List_Lexorder" "HOL-Library.Product_Lexorder"
begin

section \<open>Python values, dictionaries and strings\<close>

text \<open>
  The handlers of \<^verbatim>\<open>main.py\<close> pass documents around as \<^verbatim>\<open>Dict[str, Any]\<close>. The values
  that occur are \<^verbatim>\<open>None\<close>, strings and \<^verbatim>\<open>datetime\<close> objects. A \<^verbatim>\<open>datetime\<close> is a point
  in time, counted here in microseconds.
\<close>

datatype pyval = PNone | PStr string | PTime int

type_synonym doc = "string \<rightharpoonup> pyval"

text \<open>Truthiness, as \<^verbatim>\<open>x or y\<close>, \<^verbatim>\<open>if x\<close> and \<^verbatim>\<open>not x\<close> test it.\<close>

fun truthy :: "pyval \<Rightarrow> bool" where
  "truthy PNone = False"
| "truthy (PStr s) = (s \<noteq> [])"
| "truthy (PTime t) = True"

definition py_or :: "pyval \<Rightarrow> pyval \<Rightarrow> pyval" where
  "py_or a b = (if truthy a then a else b)"

text \<open>\<^verbatim>\<open>d.get(k)\<close> and \<^verbatim>\<open>d.get(k, default)\<close>.\<close>

definition dict_get :: "doc \<Rightarrow> string \<Rightarrow> pyval" where
  "dict_get d k = (case d k of None \<Rightarrow> PNone | Some v \<Rightarrow> v)"

definition dict_get_default :: "doc \<Rightarrow> string \<Rightarrow> pyval \<Rightarrow> pyval" where
  "dict_get_default d k dflt = (case d k of None \<Rightarrow> dflt | Some v \<Rightarrow> v)"

definition py_of_opt :: "string option \<Rightarrow> pyval" where
  "py_of_opt x = (case x of None \<Rightarrow> PNone | Some s \<Rightarrow> PStr s)"

text \<open>
  Strings are byte strings; case mapping acts on the ASCII letters and leaves every
  other byte as it is.
\<close>

definition is_upper :: "char \<Rightarrow> bool" where
  "is_upper c = (CHR ''A'' \<le> c \<and> c \<le> CHR ''Z'')"


definition to_lower :: "char \<Rightarrow> char" where
  "to_lower c = (if is_upper c then char_of (of_char c + (32::nat)) else c)"


text \<open>\<^verbatim>\<open>s.lower()\<close>.\<close>

definition lower :: "string \<Rightarrow> string" where
  "lower s = map to_lower s"



text \<open>\<^verbatim>\<open>k in text\<close> on strings: \<open>k\<close> occurs in \<open>text\<close> as a contiguous substring.\<close>

fun starts_with :: "string \<Rightarrow> string \<Rightarrow> bool" where
  "starts_with [] ys = True"
| "starts_with (x # xs) [] = False"
| "starts_with (x # xs) (y # ys) = (x = y \<and> starts_with xs ys)"

fun py_in :: "string \<Rightarrow> string \<Rightarrow> bool" where
  "py_in k [] = (k = [])"
| "py_in k (c # cs) = (starts_with k (c # cs) \<or> py_in k cs)"

section \<open>Errors, environment and the world\<close>

datatype error =
    HTTPException nat
  | ValidationError
  | TypeError
  | AttributeError
  | KeyError

text \<open>
  What a handler reads from outside: the process environment, the clock (one reading
  \<open>now\<close> for the whole call of a handler), the hex string of the \<^verbatim>\<open>ObjectId\<close> the store
  gives to the \<open>n\<close>-th document of a collection, and whether the spreadsheet service
  answers.
\<close>

record env =
  environ :: "string \<rightharpoonup> string"
  now :: int
  oid_gen :: "string \<Rightarrow> nat \<Rightarrow> string"
  sheets_up :: bool

text \<open>The text messages of \<^verbatim>\<open>main.py\<close>, each an f-string template with its interpolated values.\<close>

record report =
  rep_total :: nat
  rep_New :: nat
  rep_In_progress :: nat
  rep_Won :: nat
  rep_Lost :: nat
  rep_by_area :: "(string \<times> nat) list"
  rep_by_job :: "(string \<times> nat) list"
  rep_conversion :: nat
  rep_overdue :: nat

datatype message =
    MsgWebsiteLead pyval pyval
  | MsgFacebookLead pyval pyval
  | MsgWhatsAppLead pyval string
  | MsgReminder pyval
  | MsgFollowUp pyval
  | MsgDailySummary report

text \<open>
  The world a handler acts on: the collections of the document store, by name, each a
  list of documents in insertion order, a document paired with the hex string of its
  \<^verbatim>\<open>ObjectId\<close>; the two spreadsheets; and the messages handed to
  \<^verbatim>\<open>send_whatsapp_message\<close>.
\<close>

type_synonym collection = "(string \<times> doc) list"

record world =
  db :: "string \<Rightarrow> collection"
  sheet :: "pyval list list"
  log_sheet :: "pyval list list"
  outbox :: "(pyval \<times> message) list"

definition getenv :: "env \<Rightarrow> string \<Rightarrow> string option" where
  "getenv e k = environ e k"

definition getenv_default :: "env \<Rightarrow> string \<Rightarrow> string \<Rightarrow> string" where
  "getenv_default e k dflt = (case environ e k of None \<Rightarrow> dflt | Some v \<Rightarrow> v)"

definition KEYWORDS :: "string list" where
  "KEYWORDS = [''paip'', ''wiring'', ''renovate'', ''leaking'', ''kontraktor'',
               ''plumber'', ''electrical'', ''bumbung'']"

definition DEFAULT_ADMIN :: "env \<Rightarrow> string" where
  "DEFAULT_ADMIN e = getenv_default e ''DEFAULT_ADMIN_WHATSAPP'' ''+60123456789''"

section \<open>database.py\<close>

text \<open>
  A \<^verbatim>\<open>datetime\<close> is taken as the instant it denotes, whether it comes from
  \<^verbatim>\<open>now_tz\<close>, from a request or back from the store: the store's client is assumed to be
  set up to return zone-aware values. With a
  client that returns naive values, comparing a stored timestamp with \<^verbatim>\<open>now_tz()\<close> raises
  \<^verbatim>\<open>TypeError\<close>, which is the branch of \<open>py_le\<close> for a value that is no \<^verbatim>\<open>datetime\<close>.
\<close>

definition now_tz :: "env \<Rightarrow> int" where
  "now_tz e = now e"

text \<open>
  The store keeps each document under the \<^verbatim>\<open>ObjectId\<close> that \<^verbatim>\<open>insert_one\<close> gave it: no
  handler supplies an \<^verbatim>\<open>_id\<close> of its own. The model keeps the \<^verbatim>\<open>ObjectId\<close> by its hex
  string, beside the fields of the document.

  A filter is a list of field/value pairs, all of which must hold; a field the document
  does not have compares as \<^verbatim>\<open>None\<close>. The values this program puts in a filter are
  \<^verbatim>\<open>None\<close>, strings and \<^verbatim>\<open>datetime\<close>s, never an \<^verbatim>\<open>ObjectId\<close>, and none of them is equal
  to an \<^verbatim>\<open>ObjectId\<close>: a condition on \<^verbatim>\<open>_id\<close> holds for no document.
\<close>

definition matches :: "(string \<times> pyval) list \<Rightarrow> string \<times> doc \<Rightarrow> bool" where
  "matches flt p =
     list_all (\<lambda>(k, v). if k = ''_id'' then False else dict_get (snd p) k = v) flt"

text \<open>
  A document as \<^verbatim>\<open>get_document\<close> and \<^verbatim>\<open>get_documents\<close> hand it out, after the query:
  with its \<^verbatim>\<open>_id\<close> turned into a string, \<^verbatim>\<open>str(doc["_id"])\<close>.
\<close>

definition stored :: "string \<times> doc \<Rightarrow> doc" where
  "stored p = (snd p)(''_id'' \<mapsto> PStr (fst p))"

definition setdefault :: "doc \<Rightarrow> string \<Rightarrow> pyval \<Rightarrow> doc" where
  "setdefault d k v = (case d k of None \<Rightarrow> d(k \<mapsto> v) | Some _ \<Rightarrow> d)"

definition create_document :: "env \<Rightarrow> string \<Rightarrow> doc \<Rightarrow> world \<Rightarrow> string \<times> world" where
  "create_document e collection_name data w =
     (let ts = now_tz e;
          data1 = setdefault data ''created_at'' (PTime ts);
          data2 = setdefault data1 ''updated_at'' (PTime ts);
          inserted_id = oid_gen e collection_name (length (db w collection_name))
      in (inserted_id,
          w\<lparr>db := (db w)(collection_name := db w collection_name @ [(inserted_id, data2)])\<rparr>))"

text \<open>
  \<^verbatim>\<open>update_many(filter, {"$set": update_dict})\<close>. The count it returns is used by no
  caller and is left out.
\<close>

definition update_document :: "env \<Rightarrow> string \<Rightarrow> (string \<times> pyval) list \<Rightarrow> doc \<Rightarrow> world \<Rightarrow> world" where
  "update_document e collection_name filter_dict update_dict w =
     (let update_dict1 = update_dict(''updated_at'' \<mapsto> PTime (now_tz e))
      in w\<lparr>db := (db w)(collection_name :=
             map (\<lambda>p. if matches filter_dict p then (fst p, snd p ++ update_dict1) else p)
                 (db w collection_name))\<rparr>)"

text \<open>
  \<^verbatim>\<open>find(filter).limit(limit)\<close>; a limit of 0 is no limit. The \<^verbatim>\<open>sort\<close> argument, which
  only \<^verbatim>\<open>list_leads\<close> passes, is left out.
\<close>

definition get_documents :: "world \<Rightarrow> string \<Rightarrow> (string \<times> pyval) list \<Rightarrow> nat \<Rightarrow> doc list" where
  "get_documents w collection_name filter_dict limit =
     (let cursor = filter (matches filter_dict) (db w collection_name);
          cursor1 = (if limit \<noteq> 0 then take limit cursor else cursor)
      in map stored cursor1)"

text \<open>\<^verbatim>\<open>find_one(filter)\<close>, and the \<^verbatim>\<open>_id\<close> of the document found turned into a string.\<close>

definition get_document :: "world \<Rightarrow> string \<Rightarrow> (string \<times> pyval) list \<Rightarrow> doc option" where
  "get_document w collection_name filter_dict =
     map_option stored (find (matches filter_dict) (db w collection_name))"

section \<open>schemas.py\<close>

text \<open>\<^verbatim>\<open>Status = Literal["New", "In progress", "Won", "Lost"]\<close>\<close>

definition is_Status :: "pyval \<Rightarrow> bool" where
  "is_Status v = (v = PStr ''New'' \<or> v = PStr ''In progress'' \<or> v = PStr ''Won'' \<or> v = PStr ''Lost'')"

fun is_str :: "pyval \<Rightarrow> bool" where
  "is_str (PStr s) = True"
| "is_str v = False"

fun is_datetime :: "pyval \<Rightarrow> bool" where
  "is_datetime (PTime t) = True"
| "is_datetime v = False"

text \<open>
  \<^verbatim>\<open>LeadLog(lead_id=.., from_status=.., to_status=.., timestamp=.., note=..).model_dump()\<close>:
  the constructor validates every field against its declared type and raises otherwise.
\<close>

definition LeadLog :: "pyval \<Rightarrow> pyval \<Rightarrow> pyval \<Rightarrow> pyval \<Rightarrow> pyval \<Rightarrow> error + doc" where
  "LeadLog lead_id from_status to_status timestamp note =
     (if is_str lead_id
         \<and> (from_status = PNone \<or> is_Status from_status)
         \<and> is_Status to_status
         \<and> is_datetime timestamp
         \<and> (note = PNone \<or> is_str note)
      then Inr [''lead_id'' \<mapsto> lead_id, ''from_status'' \<mapsto> from_status,
                ''to_status'' \<mapsto> to_status, ''timestamp'' \<mapsto> timestamp, ''note'' \<mapsto> note]
      else Inl ValidationError)"

record WebhookIn =
  wh_name :: "string option"
  wh_phone :: "string option"
  wh_area :: "string option"
  wh_job_category :: "string option"
  wh_description :: "string option"
  wh_source :: "string option"
  wh_assigned_sales_whatsapp :: "string option"

record WhatsAppMessageIn =
  wa_from_number :: string
  wa_to_number :: string
  wa_message :: string
  wa_timestamp :: int

record StatusUpdateIn =
  su_lead_id :: string
  su_status :: string
  su_note :: "string option"

text \<open>\<^verbatim>\<open>payload.model_dump(exclude_none=True)\<close>: only the fields that are not \<^verbatim>\<open>None\<close>.\<close>

definition put_opt :: "string \<Rightarrow> string option \<Rightarrow> doc \<Rightarrow> doc" where
  "put_opt k x d = (case x of None \<Rightarrow> d | Some s \<Rightarrow> d(k \<mapsto> PStr s))"

definition model_dump_exclude_none :: "WebhookIn \<Rightarrow> doc" where
  "model_dump_exclude_none p =
     put_opt ''assigned_sales_whatsapp'' (wh_assigned_sales_whatsapp p)
      (put_opt ''source'' (wh_source p)
       (put_opt ''description'' (wh_description p)
        (put_opt ''job_category'' (wh_job_category p)
         (put_opt ''area'' (wh_area p)
          (put_opt ''phone'' (wh_phone p)
           (put_opt ''name'' (wh_name p) Map.empty))))))"

section \<open>main.py\<close>

text \<open>
  The functions the source names with a leading underscore are written without it. A
  handler takes the world and returns what it answers or raises, together with the world
  it leaves behind: what a handler has written before it raises stays written.
\<close>

datatype response = Ok | OkIgnored | OkLead doc

text \<open>
  The spreadsheet calls are wrapped in \<^verbatim>\<open>try ... except Exception\<close>: when the service
  fails, the failure is logged and nothing else happens.
\<close>

definition append_to_sheet :: "env \<Rightarrow> pyval list \<Rightarrow> world \<Rightarrow> world" where
  "append_to_sheet e row w = (if sheets_up e then w\<lparr>sheet := sheet w @ [row]\<rparr> else w)"

definition append_log :: "env \<Rightarrow> pyval list \<Rightarrow> world \<Rightarrow> world" where
  "append_log e row w = (if sheets_up e then w\<lparr>log_sheet := log_sheet w @ [row]\<rparr> else w)"

text \<open>
  The row holds the timestamp formatted as text, which only a \<^verbatim>\<open>datetime\<close> can be;
  the instant stands for its text.
\<close>

definition sheet_row_from_lead :: "doc \<Rightarrow> error + pyval list" where
  "sheet_row_from_lead lead =
     (case dict_get lead ''timestamp'' of
        PTime t \<Rightarrow> Inr [dict_get lead ''name'', dict_get lead ''phone'', dict_get lead ''area'',
                        dict_get lead ''job_category'', dict_get lead ''description'',
                        dict_get lead ''source'', PTime t, dict_get lead ''status'',
                        dict_get lead ''assigned_sales_whatsapp'', dict_get lead ''_id'']
      | _ \<Rightarrow> Inl AttributeError)"

definition send_whatsapp_message :: "env \<Rightarrow> pyval \<Rightarrow> message \<Rightarrow> world \<Rightarrow> world" where
  "send_whatsapp_message e to_number msg w =
     (let to_number1 = (if \<not> truthy to_number then PStr (DEFAULT_ADMIN e) else to_number)
      in w\<lparr>outbox := outbox w @ [(to_number1, msg)]\<rparr>)"

definition log_status_change ::
  "env \<Rightarrow> pyval \<Rightarrow> pyval \<Rightarrow> pyval \<Rightarrow> pyval \<Rightarrow> world \<Rightarrow> (error + unit) \<times> world" where
  "log_status_change e lead_id from_status to_status note w =
     (case LeadLog lead_id from_status to_status (PTime (now_tz e)) note of
        Inl err \<Rightarrow> (Inl err, w)
      | Inr log \<Rightarrow>
          (let w1 = snd (create_document e ''lead_log'' log w);
               w2 = append_log e [lead_id, py_or from_status (PStr ''''), to_status,
                                  dict_get log ''timestamp'', py_or note (PStr '''')] w1
           in (Inr (), w2)))"

definition save_and_sheet :: "env \<Rightarrow> doc \<Rightarrow> world \<Rightarrow> (error + doc) \<times> world" where
  "save_and_sheet e lead_data w =
     (let (lead_id, w1) = create_document e ''lead'' lead_data w
      in case get_document w1 ''lead'' [(''_id'', PStr lead_id)] of
           None \<Rightarrow> (Inr lead_data, w1)
         | Some lead \<Rightarrow>
             (case sheet_row_from_lead lead of
                Inl err \<Rightarrow> (Inl err, w1)
              | Inr row \<Rightarrow> (Inr lead, append_to_sheet e row w1)))"

definition normalize_lead :: "env \<Rightarrow> doc \<Rightarrow> doc" where
  "normalize_lead e data =
     (let ts = py_or (dict_get data ''timestamp'') (PTime (now_tz e));
          assigned = py_or (dict_get data ''assigned_sales_whatsapp'')
                           (py_of_opt (getenv e ''DEFAULT_ASSIGNED_WHATSAPP''))
      in [''name'' \<mapsto> py_or (dict_get data ''name'') (PStr ''Unknown''),
          ''phone'' \<mapsto> py_or (dict_get data ''phone'') (PStr ''''),
          ''area'' \<mapsto> dict_get data ''area'',
          ''job_category'' \<mapsto> dict_get data ''job_category'',
          ''description'' \<mapsto> dict_get data ''description'',
          ''source'' \<mapsto> dict_get_default data ''source'' (PStr ''manual''),
          ''timestamp'' \<mapsto> ts,
          ''status'' \<mapsto> PStr ''New'',
          ''assigned_sales_whatsapp'' \<mapsto>
             (if truthy assigned then assigned
              else PStr (getenv_default e ''DEFAULT_ADMIN_WHATSAPP'' (DEFAULT_ADMIN e))),
          ''last_sales_reply_at'' \<mapsto> PNone])"

definition ingest_webhook :: "env \<Rightarrow> WebhookIn \<Rightarrow> world \<Rightarrow> (error + response) \<times> world" where
  "ingest_webhook e payload w =
     (let data = normalize_lead e ((model_dump_exclude_none payload)(''source'' \<mapsto> PStr ''website''))
      in case save_and_sheet e data w of
           (Inl err, w1) \<Rightarrow> (Inl err, w1)
         | (Inr lead, w1) \<Rightarrow>
             (Inr (OkLead lead),
              send_whatsapp_message e (dict_get lead ''assigned_sales_whatsapp'')
                (MsgWebsiteLead (dict_get lead ''name'') (dict_get lead ''phone'')) w1))"

definition ingest_facebook :: "env \<Rightarrow> WebhookIn \<Rightarrow> world \<Rightarrow> (error + response) \<times> world" where
  "ingest_facebook e payload w =
     (let data = normalize_lead e ((model_dump_exclude_none payload)(''source'' \<mapsto> PStr ''facebook''))
      in case save_and_sheet e data w of
           (Inl err, w1) \<Rightarrow> (Inl err, w1)
         | (Inr lead, w1) \<Rightarrow>
             (Inr (OkLead lead),
              send_whatsapp_message e (dict_get lead ''assigned_sales_whatsapp'')
                (MsgFacebookLead (dict_get lead ''name'') (dict_get lead ''phone'')) w1))"

definition ingest_whatsapp :: "env \<Rightarrow> WhatsAppMessageIn \<Rightarrow> world \<Rightarrow> (error + response) \<times> world" where
  "ingest_whatsapp e msg w =
     (let text = lower (wa_message msg)
      in if \<not> list_ex (\<lambda>k. py_in k text) KEYWORDS
         then (Inr OkIgnored,
               update_document e ''lead'' [(''assigned_sales_whatsapp'', PStr (wa_from_number msg))]
                 [''last_sales_reply_at'' \<mapsto> PTime (wa_timestamp msg),
                  ''status'' \<mapsto> PStr ''In progress''] w)
         else
           (let data = normalize_lead e
                  [''name'' \<mapsto> PNone,
                   ''phone'' \<mapsto> PStr (wa_from_number msg),
                   ''area'' \<mapsto> PNone,
                   ''job_category'' \<mapsto> PNone,
                   ''description'' \<mapsto> PStr (wa_message msg),
                   ''source'' \<mapsto> PStr ''whatsapp'',
                   ''timestamp'' \<mapsto> PTime (wa_timestamp msg),
                   ''assigned_sales_whatsapp'' \<mapsto> PStr (wa_to_number msg)]
            in case save_and_sheet e data w of
                 (Inl err, w1) \<Rightarrow> (Inl err, w1)
               | (Inr lead, w1) \<Rightarrow>
                   (Inr (OkLead lead),
                    send_whatsapp_message e (dict_get lead ''assigned_sales_whatsapp'')
                      (MsgWhatsAppLead (dict_get lead ''phone'') (take 80 (wa_message msg))) w1)))"

definition update_status :: "env \<Rightarrow> StatusUpdateIn \<Rightarrow> world \<Rightarrow> (error + response) \<times> world" where
  "update_status e payload w =
     (case get_document w ''lead'' [(''_id'', PStr (su_lead_id payload))] of
        None \<Rightarrow> (Inl (HTTPException 404), w)
      | Some lead \<Rightarrow>
          (let prev = dict_get lead ''status'';
               w1 = update_document e ''lead'' [(''_id'', PStr (su_lead_id payload))]
                      [''status'' \<mapsto> PStr (su_status payload)] w
           in case log_status_change e (PStr (su_lead_id payload)) prev (PStr (su_status payload))
                     (py_of_opt (su_note payload)) w1 of
                (Inl err, w2) \<Rightarrow> (Inl err, w2)
              | (Inr u, w2) \<Rightarrow> (Inr Ok, w2)))"















section \<open>Definitions used in the statements\<close>

text \<open>
  The contact a lead is assigned to when the payload names none: the channel default
  \<^verbatim>\<open>DEFAULT_ASSIGNED_WHATSAPP\<close> when it is set and not empty, the admin contact otherwise.
\<close>

definition configured_default_contact :: "env \<Rightarrow> pyval" where
  "configured_default_contact e =
     (case getenv e ''DEFAULT_ASSIGNED_WHATSAPP'' of
        Some s \<Rightarrow> if s \<noteq> [] then PStr s
                  else PStr (getenv_default e ''DEFAULT_ADMIN_WHATSAPP'' (DEFAULT_ADMIN e))
      | None \<Rightarrow> PStr (getenv_default e ''DEFAULT_ADMIN_WHATSAPP'' (DEFAULT_ADMIN e)))"

text \<open>The dictionary \<^verbatim>\<open>ingest_whatsapp\<close> hands to \<^verbatim>\<open>normalize_lead\<close>.\<close>

definition whatsapp_lead_data :: "WhatsAppMessageIn \<Rightarrow> doc" where
  "whatsapp_lead_data msg =
     [''name'' \<mapsto> PNone,
      ''phone'' \<mapsto> PStr (wa_from_number msg),
      ''area'' \<mapsto> PNone,
      ''job_category'' \<mapsto> PNone,
      ''description'' \<mapsto> PStr (wa_message msg),
      ''source'' \<mapsto> PStr ''whatsapp'',
      ''timestamp'' \<mapsto> PTime (wa_timestamp msg),
      ''assigned_sales_whatsapp'' \<mapsto> PStr (wa_to_number msg)]"












section \<open>Concrete inputs\<close>

text \<open>An environment with no variable set, and a store with nothing in it.\<close>

definition env0 :: env where
  "env0 = \<lparr>environ = Map.empty, now = 1700000000000000,
           oid_gen = (\<lambda>c n. replicate (Suc n) CHR ''a''), sheets_up = True\<rparr>"

definition world0 :: world where
  "world0 = \<lparr>db = (\<lambda>c. []), sheet = [], log_sheet = [], outbox = []\<rparr>"

text \<open>A store with one lead, as the website webhook leaves it.\<close>

definition lead1 :: doc where
  "lead1 = normalize_lead env0 [''name'' \<mapsto> PStr ''Ali'', ''phone'' \<mapsto> PStr ''+60111'',
                                ''source'' \<mapsto> PStr ''website'']"

definition world1 :: world where
  "world1 = \<lparr>db = (\<lambda>c. if c = ''lead'' then [(''L1'', lead1)] else []),
             sheet = [], log_sheet = [], outbox = []\<rparr>"

text \<open>
  A store with two leads: one already won and assigned to \<^verbatim>\<open>+60199\<close>, one new and
  assigned to \<^verbatim>\<open>+60188\<close>.
\<close>

definition world2 :: world where
  "world2 = \<lparr>db = (\<lambda>c. if c = ''lead''
                        then [(''L1'', lead1(''status'' \<mapsto> PStr ''Won'',
                                             ''assigned_sales_whatsapp'' \<mapsto> PStr ''+60199'')),
                              (''L2'', lead1(''assigned_sales_whatsapp'' \<mapsto> PStr ''+60188''))]
                        else []),
             sheet = [], log_sheet = [], outbox = []\<rparr>"

text \<open>Three inbound messages: an enquiry, a handler's reply, an enquiry with an empty recipient.\<close>

definition msg_new :: WhatsAppMessageIn where
  "msg_new = \<lparr>wa_from_number = ''+60122'', wa_to_number = ''+60199'',
             wa_message = ''Need PLUMBER urgent'', wa_timestamp = 1699999000000000\<rparr>"

definition msg_reply :: WhatsAppMessageIn where
  "msg_reply = \<lparr>wa_from_number = ''+60199'', wa_to_number = ''+60100'',
               wa_message = ''ok noted boss'', wa_timestamp = 1699999500000000\<rparr>"

definition msg_no_recipient :: WhatsAppMessageIn where
  "msg_no_recipient = \<lparr>wa_from_number = ''+60122'', wa_to_number = '''',
             wa_message = ''need plumber urgent'', wa_timestamp = 1699999000000000\<rparr>"

text \<open>The webhook payload of the spec's scenario, and the payload of a status update.\<close>

definition payload_ali :: WebhookIn where
  "payload_ali = \<lparr>wh_name = Some ''Ali'', wh_phone = Some ''+60111'', wh_area = None,
                   wh_job_category = None, wh_description = None, wh_source = None,
                   wh_assigned_sales_whatsapp = None\<rparr>"

definition status_update :: "string \<Rightarrow> string \<Rightarrow> StatusUpdateIn" where
  "status_update i s = \<lparr>su_lead_id = i, su_status = s, su_note = None\<rparr>"

text \<open>A webhook payload that names another channel as its source.\<close>

definition payload_fb :: WebhookIn where
  "payload_fb = \<lparr>wh_name = Some ''Ali'', wh_phone = Some ''+60111'', wh_area = None,
                  wh_job_category = None, wh_description = None, wh_source = Some ''facebook'',
                  wh_assigned_sales_whatsapp = None\<rparr>"











section \<open>Facts about the store\<close>

lemma matches_id [simp]: "matches ((''_id'', v) # flt) p = False"
  by (simp add: matches_def)

lemma matches_assigned:
  "matches [(''assigned_sales_whatsapp'', PStr x)] p
     = (dict_get (snd p) ''assigned_sales_whatsapp'' = PStr x)"
  by (simp add: matches_def)


text \<open>A lookup by \<^verbatim>\<open>_id\<close> finds nothing, whatever the store holds.\<close>

lemma get_document_id: "get_document w c ((''_id'', v) # flt) = None"
  by (simp add: get_document_def find_None_iff)

lemma db_update_document_other:
  "c' \<noteq> c \<Longrightarrow> db (update_document e c flt u w) c' = db w c'"
  by (simp add: update_document_def Let_def)

lemma db_update_document_same:
  "db (update_document e c flt u w) c =
     map (\<lambda>p. if matches flt p
               then (fst p, snd p ++ u(''updated_at'' \<mapsto> PTime (now e))) else p) (db w c)"
  by (simp add: update_document_def Let_def now_tz_def)

lemma update_document_rest [simp]:
  "sheet (update_document e c flt u w) = sheet w"
  "log_sheet (update_document e c flt u w) = log_sheet w"
  "outbox (update_document e c flt u w) = outbox w"
  by (simp_all add: update_document_def Let_def)

lemma setdefault_other: "k \<noteq> k' \<Longrightarrow> setdefault d k' v k = d k"
  by (simp add: setdefault_def split: option.splits)

lemma stored_other: "k \<noteq> ''_id'' \<Longrightarrow> dict_get (stored p) k = dict_get (snd p) k"
  by (simp add: stored_def dict_get_def)

lemma stored_id: "dict_get (stored p) ''_id'' = PStr (fst p)"
  by (simp add: stored_def dict_get_def)

lemma db_send [simp]: "db (send_whatsapp_message e t m w) = db w"
  by (simp add: send_whatsapp_message_def Let_def)

lemma outbox_send [simp]:
  "outbox (send_whatsapp_message e t m w)
     = outbox w @ [(if truthy t then t else PStr (DEFAULT_ADMIN e), m)]"
  by (simp add: send_whatsapp_message_def Let_def)

section \<open>Writing the audit log\<close>


section \<open>The lead normalizer\<close>

text \<open>
  Claim C8, as amended. \<^verbatim>\<open>normalize_lead\<close> has no failing branch. Its result has the name
  that was supplied when that is truthy and \<^verbatim>\<open>"Unknown"\<close> otherwise (absent, \<^verbatim>\<open>None\<close> or
  the empty string); the phone that was supplied when that is truthy and the empty string
  otherwise, never \<^verbatim>\<open>None\<close>; the status \<^verbatim>\<open>"New"\<close>; and \<^verbatim>\<open>last_sales_reply_at\<close> set to
  \<^verbatim>\<open>None\<close>.
\<close>

theorem normalize_lead_defaults:
  "dict_get (normalize_lead e data) ''name'' =
     (if truthy (dict_get data ''name'') then dict_get data ''name'' else PStr ''Unknown'')
   \<and> dict_get (normalize_lead e data) ''phone'' =
     (if truthy (dict_get data ''phone'') then dict_get data ''phone'' else PStr '''')
   \<and> dict_get (normalize_lead e data) ''phone'' \<noteq> PNone
   \<and> normalize_lead e data ''status'' = Some (PStr ''New'')
   \<and> normalize_lead e data ''last_sales_reply_at'' = Some PNone"
  by (auto simp: normalize_lead_def dict_get_def py_or_def Let_def)

theorem normalize_lead_defaults_witness:
  "dict_get (normalize_lead env0 [''phone'' \<mapsto> PStr ''+60111'']) ''name'' = PStr ''Unknown''
   \<and> dict_get (normalize_lead env0 [''phone'' \<mapsto> PStr ''+60111'']) ''phone'' = PStr ''+60111''
   \<and> dict_get (normalize_lead env0 Map.empty) ''phone'' = PStr ''''
   \<and> normalize_lead env0 Map.empty ''status'' = Some (PStr ''New'')
   \<and> normalize_lead env0 Map.empty ''last_sales_reply_at'' = Some PNone"
  using normalize_lead_defaults [of env0 "[''phone'' \<mapsto> PStr ''+60111'']"]
        normalize_lead_defaults [of env0 Map.empty]
  by (simp add: dict_get_def)

text \<open>
  Claim C8 as it is written fails where the name is supplied as the empty string: the
  result is \<^verbatim>\<open>"Unknown"\<close>, not the supplied value.
\<close>

theorem normalize_lead_empty_name_counterexample:
  "dict_get (normalize_lead env0 [''name'' \<mapsto> PStr '''']) ''name''
     \<noteq> dict_get [''name'' \<mapsto> PStr ''''] ''name''"
  by (simp add: normalize_lead_def dict_get_def py_or_def Let_def)

section \<open>The explicit status update\<close>

text \<open>
  \<^verbatim>\<open>update_status\<close> looks the lead up with \<^verbatim>\<open>{"_id": payload.lead_id}\<close>, a string, while the
  store keeps the lead under an \<^verbatim>\<open>ObjectId\<close>: the lookup finds nothing and the call stops at
  its first check, for every payload and every store.
\<close>

lemma update_status_stops:
  "update_status e payload w = (Inl (HTTPException 404), w)"
  by (simp add: update_status_def get_document_id)

text \<open>The store after the website webhook has taken the payload of the scenario.\<close>

lemma db_after_webhook:
  "\<exists>d. db (snd (ingest_webhook env0 payload_ali world0)) ''lead'' = [(''a'', d)]
        \<and> dict_get d ''status'' = PStr ''New''"
proof -
  let ?data = "normalize_lead env0 ((model_dump_exclude_none payload_ali)(''source'' \<mapsto> PStr ''website''))"
  have "db (snd (ingest_webhook env0 payload_ali world0)) ''lead''
          = db (snd (create_document env0 ''lead'' ?data world0)) ''lead''"
    by (simp add: ingest_webhook_def Let_def save_and_sheet_def get_document_id
             split: prod.splits)
  also have "\<dots> = [(''a'', setdefault (setdefault ?data ''created_at'' (PTime (now env0)))
                                 ''updated_at'' (PTime (now env0)))]"
    by (simp add: create_document_def Let_def now_tz_def world0_def env0_def)
  finally show ?thesis
    by (simp add: dict_get_def setdefault_def normalize_lead_def Let_def split: option.splits)
qed

lemma listed_after_webhook:
  "map (\<lambda>l. (dict_get l ''_id'', dict_get l ''status''))
       (get_documents (snd (ingest_webhook env0 payload_ali world0)) ''lead'' [] 1000)
     = [(PStr ''a'', PStr ''New'')]"
proof -
  from db_after_webhook obtain d where
    "db (snd (ingest_webhook env0 payload_ali world0)) ''lead'' = [(''a'', d)]"
    "dict_get d ''status'' = PStr ''New''"
    by blast
  then show ?thesis
    by (simp add: get_documents_def matches_def stored_id stored_other)
qed

text \<open>
  Claim C1, on the code. The website webhook stores a lead; the store lists it as new under
  the string \<^verbatim>\<open>a\<close> of its identifier. A status update with that string and the status
  \<^verbatim>\<open>"In progress"\<close> raises \<^verbatim>\<open>HTTPException(404)\<close> and leaves the store as it was: the log
  is empty, where the claim has one entry from New to In progress appended.
\<close>

theorem update_status_misses_stored_lead:
  "map (\<lambda>l. (dict_get l ''_id'', dict_get l ''status''))
       (get_documents (snd (ingest_webhook env0 payload_ali world0)) ''lead'' [] 1000)
     = [(PStr ''a'', PStr ''New'')]
   \<and> update_status env0 (status_update ''a'' ''In progress'')
        (snd (ingest_webhook env0 payload_ali world0))
     = (Inl (HTTPException 404), snd (ingest_webhook env0 payload_ali world0))
   \<and> db (snd (update_status env0 (status_update ''a'' ''In progress'')
                (snd (ingest_webhook env0 payload_ali world0)))) ''lead_log'' = []"
proof -
  have "db (snd (ingest_webhook env0 payload_ali world0)) ''lead_log'' = []"
    by (simp add: ingest_webhook_def Let_def save_and_sheet_def get_document_id
          create_document_def world0_def split: prod.splits)
  then show ?thesis
    by (simp add: listed_after_webhook update_status_stops)
qed

text \<open>
  Claim C2. When the lead id resolves to no lead, \<^verbatim>\<open>update_status\<close> raises
  \<^verbatim>\<open>HTTPException(404)\<close> and leaves the world as it was: no log entry, no lead changed.
\<close>

theorem update_status_not_found:
  assumes "get_document w ''lead'' [(''_id'', PStr (su_lead_id payload))] = None"
  shows "update_status e payload w = (Inl (HTTPException 404), w)"
  using assms by (simp add: update_status_def)

theorem update_status_not_found_witness:
  "get_document world1 ''lead'' [(''_id'', PStr ''L2'')] = None \<and>
   update_status env0 \<lparr>su_lead_id = ''L2'', su_status = ''Won'', su_note = None\<rparr> world1
     = (Inl (HTTPException 404), world1)"
proof -
  have h: "get_document world1 ''lead''
             [(''_id'', PStr (su_lead_id \<lparr>su_lead_id = ''L2'', su_status = ''Won'', su_note = None\<rparr>))]
           = None"
    by (simp add: get_document_id)
  show ?thesis using h update_status_not_found [OF h, of env0] by simp
qed

text \<open>
  Claim C9, on the code. For the same stored lead, a status update with the status
  \<^verbatim>\<open>"Archived"\<close>, which is outside \<^verbatim>\<open>Status\<close>, raises \<^verbatim>\<open>HTTPException(404)\<close>, not the
  validation error of \<^verbatim>\<open>LeadLog\<close>, and the lead is still new afterwards: the call stops
  before \<^verbatim>\<open>update_document\<close>, where the claim has the status overwritten.
\<close>

theorem update_status_invalid_status_stops_early:
  "map (\<lambda>l. (dict_get l ''_id'', dict_get l ''status''))
       (get_documents (snd (ingest_webhook env0 payload_ali world0)) ''lead'' [] 1000)
     = [(PStr ''a'', PStr ''New'')]
   \<and> \<not> is_Status (PStr ''Archived'')
   \<and> fst (update_status env0 (status_update ''a'' ''Archived'')
             (snd (ingest_webhook env0 payload_ali world0))) = Inl (HTTPException 404)
   \<and> map (\<lambda>l. (dict_get l ''_id'', dict_get l ''status''))
       (get_documents
          (snd (update_status env0 (status_update ''a'' ''Archived'')
                  (snd (ingest_webhook env0 payload_ali world0)))) ''lead'' [] 1000)
     = [(PStr ''a'', PStr ''New'')]"
  by (simp add: listed_after_webhook update_status_stops is_Status_def)

section \<open>Ingestion\<close>

text \<open>\<^verbatim>\<open>k in text\<close> holds exactly when \<open>k\<close> is a contiguous part of \<open>text\<close>.\<close>

lemma starts_with_iff: "starts_with k t \<longleftrightarrow> (\<exists>ss. t = k @ ss)"
  by (induction k t rule: starts_with.induct) auto

lemma py_in_iff: "py_in k t \<longleftrightarrow> (\<exists>ps ss. t = ps @ k @ ss)"
proof (induction t)
  case Nil
  then show ?case by auto
next
  case (Cons c cs)
  show ?case
  proof
    assume "py_in k (c # cs)"
    then consider "starts_with k (c # cs)" | "py_in k cs" by auto
    then show "\<exists>ps ss. c # cs = ps @ k @ ss"
    proof cases
      case 1
      then obtain ss where "c # cs = k @ ss" by (auto simp: starts_with_iff)
      then have "c # cs = [] @ k @ ss" by simp
      then show ?thesis by blast
    next
      case 2
      then obtain ps ss where "cs = ps @ k @ ss" using Cons.IH by auto
      then have "c # cs = (c # ps) @ k @ ss" by simp
      then show ?thesis by blast
    qed
  next
    assume "\<exists>ps ss. c # cs = ps @ k @ ss"
    then obtain ps ss where eq: "c # cs = ps @ k @ ss" by auto
    show "py_in k (c # cs)"
    proof (cases ps)
      case Nil
      then have "starts_with k (c # cs)" using eq by (auto simp: starts_with_iff)
      then show ?thesis by simp
    next
      case (Cons p ps')
      then have "cs = ps' @ k @ ss" using eq by simp
      then have "py_in k cs" using Cons.IH by blast
      then show ?thesis by simp
    qed
  qed
qed

lemma keyword_hit_iff:
  "list_ex (\<lambda>k. py_in k t) KEYWORDS \<longleftrightarrow> (\<exists>k\<in>set KEYWORDS. \<exists>ps ss. t = ps @ k @ ss)"
  by (simp add: list_ex_iff py_in_iff)

lemma hit_new: "list_ex (\<lambda>k. py_in k (lower (wa_message msg_new))) KEYWORDS"
  unfolding msg_new_def by code_simp

lemma miss_reply: "\<not> list_ex (\<lambda>k. py_in k (lower (wa_message msg_reply))) KEYWORDS"
  unfolding msg_reply_def by code_simp

lemma hit_no_recipient: "list_ex (\<lambda>k. py_in k (lower (wa_message msg_no_recipient))) KEYWORDS"
  unfolding msg_no_recipient_def by code_simp

text \<open>What \<^verbatim>\<open>_save_and_sheet\<close> does to the store.\<close>

lemma db_save_and_sheet:
  "db (snd (save_and_sheet e data w)) ''lead'' =
     db w ''lead'' @
       [(oid_gen e ''lead'' (length (db w ''lead'')),
         setdefault (setdefault data ''created_at'' (PTime (now e))) ''updated_at'' (PTime (now e)))]"
  by (simp add: save_and_sheet_def create_document_def append_to_sheet_def Let_def now_tz_def
           split: option.splits sum.splits)

lemma db_save_and_sheet_other:
  "c \<noteq> ''lead'' \<Longrightarrow> db (snd (save_and_sheet e data w)) c = db w c"
  by (simp add: save_and_sheet_def create_document_def append_to_sheet_def Let_def now_tz_def
           split: option.splits sum.splits)

text \<open>
  The lookup that follows the insert is by \<^verbatim>\<open>_id\<close> and finds nothing, so
  \<^verbatim>\<open>_save_and_sheet\<close> answers with the data it was given and appends no row to the sheet.
\<close>

lemma save_and_sheet_eq:
  "save_and_sheet e data w = (Inr data, snd (create_document e ''lead'' data w))"
  by (simp add: save_and_sheet_def get_document_id split: prod.splits)

lemma db_ingest_webhook:
  "db (snd (ingest_webhook e payload w)) =
     db (snd (save_and_sheet e
                (normalize_lead e ((model_dump_exclude_none payload)(''source'' \<mapsto> PStr ''website'')))
                w))"
  by (simp add: ingest_webhook_def Let_def split: prod.splits sum.splits)

lemma db_ingest_facebook:
  "db (snd (ingest_facebook e payload w)) =
     db (snd (save_and_sheet e
                (normalize_lead e ((model_dump_exclude_none payload)(''source'' \<mapsto> PStr ''facebook'')))
                w))"
  by (simp add: ingest_facebook_def Let_def split: prod.splits sum.splits)

lemma normalize_lead_source: "normalize_lead e (d(''source'' \<mapsto> v)) ''source'' = Some v"
  by (simp add: normalize_lead_def Let_def dict_get_default_def)

text \<open>
  Claim C10. Whatever the payload, \<^verbatim>\<open>ingest_webhook\<close> appends one lead to the store and its
  source is \<^verbatim>\<open>"website"\<close>, and \<^verbatim>\<open>ingest_facebook\<close> appends one lead and its source is
  \<^verbatim>\<open>"facebook"\<close>: the channel tag replaces a source the payload supplies.
\<close>

theorem ingest_channel_tag_overrides:
  "(\<exists>i d. db (snd (ingest_webhook e payload w)) ''lead'' = db w ''lead'' @ [(i, d)]
          \<and> d ''source'' = Some (PStr ''website''))
   \<and> (\<exists>i d. db (snd (ingest_facebook e payload w)) ''lead'' = db w ''lead'' @ [(i, d)]
          \<and> d ''source'' = Some (PStr ''facebook''))"
  by (simp add: db_ingest_webhook db_ingest_facebook db_save_and_sheet setdefault_other
        normalize_lead_source)

text \<open>The witness posts a payload whose source says \<^verbatim>\<open>"facebook"\<close> to the website webhook.\<close>

theorem ingest_channel_tag_overrides_witness:
  "wh_source payload_fb = Some ''facebook'' \<and>
   (\<exists>i d. db (snd (ingest_webhook env0 payload_fb world0)) ''lead'' = [(i, d)]
          \<and> d ''source'' = Some (PStr ''website''))"
  using ingest_channel_tag_overrides [of env0 payload_fb world0]
  by (simp add: payload_fb_def world0_def)

section \<open>Inbound messages\<close>

lemma ingest_whatsapp_reply:
  "\<not> list_ex (\<lambda>k. py_in k (lower (wa_message msg))) KEYWORDS \<Longrightarrow>
   ingest_whatsapp e msg w =
     (Inr OkIgnored,
      update_document e ''lead'' [(''assigned_sales_whatsapp'', PStr (wa_from_number msg))]
        [''last_sales_reply_at'' \<mapsto> PTime (wa_timestamp msg),
         ''status'' \<mapsto> PStr ''In progress''] w)"
  by (simp add: ingest_whatsapp_def Let_def)

lemma ingest_whatsapp_new:
  "list_ex (\<lambda>k. py_in k (lower (wa_message msg))) KEYWORDS \<Longrightarrow>
   ingest_whatsapp e msg w =
     (case save_and_sheet e (normalize_lead e (whatsapp_lead_data msg)) w of
        (Inl err, w1) \<Rightarrow> (Inl err, w1)
      | (Inr lead, w1) \<Rightarrow>
          (Inr (OkLead lead),
           send_whatsapp_message e (dict_get lead ''assigned_sales_whatsapp'')
             (MsgWhatsAppLead (dict_get lead ''phone'') (take 80 (wa_message msg))) w1))"
  by (simp add: ingest_whatsapp_def Let_def whatsapp_lead_data_def)

lemma normalize_whatsapp:
  "normalize_lead e (whatsapp_lead_data msg) ''source'' = Some (PStr ''whatsapp'')"
  "normalize_lead e (whatsapp_lead_data msg) ''phone'' = Some (PStr (wa_from_number msg))"
  "normalize_lead e (whatsapp_lead_data msg) ''description'' = Some (PStr (wa_message msg))"
  "normalize_lead e (whatsapp_lead_data msg) ''status'' = Some (PStr ''New'')"
  "normalize_lead e (whatsapp_lead_data msg) ''timestamp'' = Some (PTime (wa_timestamp msg))"
  "normalize_lead e (whatsapp_lead_data msg) ''assigned_sales_whatsapp'' =
     Some (if wa_to_number msg \<noteq> [] then PStr (wa_to_number msg)
           else configured_default_contact e)"
  by (auto simp: normalize_lead_def whatsapp_lead_data_def Let_def dict_get_def
        dict_get_default_def py_or_def py_of_opt_def configured_default_contact_def
        split: option.splits)

text \<open>
  Claim C3, as amended. When the lowered message contains one of the keywords as a
  substring, \<^verbatim>\<open>ingest_whatsapp\<close> does not answer "ignored" and appends one lead to the store,
  with source \<^verbatim>\<open>"whatsapp"\<close>, the sender as phone, the message as description, status
  \<^verbatim>\<open>"New"\<close>, and assigned to the recipient when the recipient is not the empty string, to
  the configured default contact otherwise. When the lowered message contains no keyword, the answer is
  "ignored" and the store holds the same leads as before, none added.
\<close>

theorem ingest_whatsapp_classifies:
  "((\<exists>k\<in>set KEYWORDS. \<exists>ps ss. lower (wa_message msg) = ps @ k @ ss) \<longrightarrow>
      fst (ingest_whatsapp e msg w) \<noteq> Inr OkIgnored \<and>
      (\<exists>i d. db (snd (ingest_whatsapp e msg w)) ''lead'' = db w ''lead'' @ [(i, d)]
         \<and> d ''source'' = Some (PStr ''whatsapp'')
         \<and> d ''phone'' = Some (PStr (wa_from_number msg))
         \<and> d ''description'' = Some (PStr (wa_message msg))
         \<and> d ''status'' = Some (PStr ''New'')
         \<and> d ''assigned_sales_whatsapp'' =
             Some (if wa_to_number msg \<noteq> [] then PStr (wa_to_number msg)
                   else configured_default_contact e)))
   \<and> (\<not> (\<exists>k\<in>set KEYWORDS. \<exists>ps ss. lower (wa_message msg) = ps @ k @ ss) \<longrightarrow>
      fst (ingest_whatsapp e msg w) = Inr OkIgnored \<and>
      map fst (db (snd (ingest_whatsapp e msg w)) ''lead'') = map fst (db w ''lead''))"
proof (intro conjI impI)
  let ?data = "normalize_lead e (whatsapp_lead_data msg)"
  let ?i = "oid_gen e ''lead'' (length (db w ''lead''))"
  let ?d = "setdefault (setdefault ?data ''created_at'' (PTime (now e))) ''updated_at'' (PTime (now e))"
  assume "\<exists>k\<in>set KEYWORDS. \<exists>ps ss. lower (wa_message msg) = ps @ k @ ss"
  then have hit: "list_ex (\<lambda>k. py_in k (lower (wa_message msg))) KEYWORDS"
    by (simp add: keyword_hit_iff)
  show "fst (ingest_whatsapp e msg w) \<noteq> Inr OkIgnored"
    by (simp add: ingest_whatsapp_new [OF hit] split: prod.splits sum.splits)
  have "db (snd (ingest_whatsapp e msg w)) = db (snd (save_and_sheet e ?data w))"
    by (simp add: ingest_whatsapp_new [OF hit] split: prod.splits sum.splits)
  then have stored_lead: "db (snd (ingest_whatsapp e msg w)) ''lead'' = db w ''lead'' @ [(?i, ?d)]"
    by (simp add: db_save_and_sheet)
  have fields:
    "?d ''source'' = Some (PStr ''whatsapp'')"
    "?d ''phone'' = Some (PStr (wa_from_number msg))"
    "?d ''description'' = Some (PStr (wa_message msg))"
    "?d ''status'' = Some (PStr ''New'')"
    "?d ''assigned_sales_whatsapp'' =
       Some (if wa_to_number msg \<noteq> [] then PStr (wa_to_number msg)
             else configured_default_contact e)"
    by (simp_all add: setdefault_other normalize_whatsapp)
  show "\<exists>i d. db (snd (ingest_whatsapp e msg w)) ''lead'' = db w ''lead'' @ [(i, d)]
         \<and> d ''source'' = Some (PStr ''whatsapp'')
         \<and> d ''phone'' = Some (PStr (wa_from_number msg))
         \<and> d ''description'' = Some (PStr (wa_message msg))
         \<and> d ''status'' = Some (PStr ''New'')
         \<and> d ''assigned_sales_whatsapp'' =
             Some (if wa_to_number msg \<noteq> [] then PStr (wa_to_number msg)
                   else configured_default_contact e)"
    using stored_lead fields by blast
next
  assume "\<not> (\<exists>k\<in>set KEYWORDS. \<exists>ps ss. lower (wa_message msg) = ps @ k @ ss)"
  then have miss: "\<not> list_ex (\<lambda>k. py_in k (lower (wa_message msg))) KEYWORDS"
    by (simp add: keyword_hit_iff)
  show "fst (ingest_whatsapp e msg w) = Inr OkIgnored"
    by (simp add: ingest_whatsapp_reply [OF miss])
  show "map fst (db (snd (ingest_whatsapp e msg w)) ''lead'') = map fst (db w ''lead'')"
    by (simp add: ingest_whatsapp_reply [OF miss] db_update_document_same comp_def)
qed

text \<open>
  The witness: an enquiry that names a plumber in capitals creates a lead assigned to the
  number it was sent to; a reply with no keyword is ignored and creates none.
\<close>

theorem ingest_whatsapp_classifies_witness:
  "fst (ingest_whatsapp env0 msg_new world0) \<noteq> Inr OkIgnored \<and>
   (\<exists>i d. db (snd (ingest_whatsapp env0 msg_new world0)) ''lead'' = [(i, d)]
      \<and> d ''source'' = Some (PStr ''whatsapp'')
      \<and> d ''phone'' = Some (PStr ''+60122'')
      \<and> d ''description'' = Some (PStr ''Need PLUMBER urgent'')
      \<and> d ''assigned_sales_whatsapp'' = Some (PStr ''+60199'')) \<and>
   fst (ingest_whatsapp env0 msg_reply world1) = Inr OkIgnored \<and>
   map fst (db (snd (ingest_whatsapp env0 msg_reply world1)) ''lead'') = [''L1'']"
proof -
  have h1: "\<exists>k\<in>set KEYWORDS. \<exists>ps ss. lower (wa_message msg_new) = ps @ k @ ss"
    using hit_new by (simp add: keyword_hit_iff)
  have h2: "\<not> (\<exists>k\<in>set KEYWORDS. \<exists>ps ss. lower (wa_message msg_reply) = ps @ k @ ss)"
    using miss_reply by (simp add: keyword_hit_iff)
  have a: "wa_to_number msg_new = ''+60199''" "wa_from_number msg_new = ''+60122''"
          "wa_message msg_new = ''Need PLUMBER urgent''"
    by (simp_all add: msg_new_def)
  have b: "db world0 ''lead'' = []" "map fst (db world1 ''lead'') = [''L1'']"
    by (simp_all add: world0_def world1_def)
  from ingest_whatsapp_classifies [of msg_new env0 world0] h1
  have c1: "fst (ingest_whatsapp env0 msg_new world0) \<noteq> Inr OkIgnored \<and>
   (\<exists>i d. db (snd (ingest_whatsapp env0 msg_new world0)) ''lead'' = [(i, d)]
      \<and> d ''source'' = Some (PStr ''whatsapp'')
      \<and> d ''phone'' = Some (PStr ''+60122'')
      \<and> d ''description'' = Some (PStr ''Need PLUMBER urgent'')
      \<and> d ''assigned_sales_whatsapp'' = Some (PStr ''+60199''))"
    unfolding a b by auto
  from ingest_whatsapp_classifies [of msg_reply env0 world1] h2
  have c2: "fst (ingest_whatsapp env0 msg_reply world1) = Inr OkIgnored \<and>
   map fst (db (snd (ingest_whatsapp env0 msg_reply world1)) ''lead'') = [''L1'']"
    unfolding b by simp
  from c1 c2 show ?thesis by simp
qed

text \<open>
  Claim C3 as it is written fails where the recipient is the empty string: the lead is
  assigned to the configured default contact, not to the recipient.
\<close>

theorem ingest_whatsapp_empty_recipient_counterexample:
  "dict_get (snd (last (db (snd (ingest_whatsapp env0 msg_no_recipient world0)) ''lead'')))
     ''assigned_sales_whatsapp'' \<noteq> PStr (wa_to_number msg_no_recipient)"
proof -
  have "db (snd (ingest_whatsapp env0 msg_no_recipient world0)) =
          db (snd (save_and_sheet env0
                     (normalize_lead env0 (whatsapp_lead_data msg_no_recipient)) world0))"
    by (simp add: ingest_whatsapp_new [OF hit_no_recipient] split: prod.splits sum.splits)
  moreover have "wa_to_number msg_no_recipient = []"
    by (simp add: msg_no_recipient_def)
  moreover have "configured_default_contact env0 = PStr ''+60123456789''"
    by (simp add: configured_default_contact_def getenv_def getenv_default_def
          DEFAULT_ADMIN_def env0_def)
  ultimately show ?thesis
    by (simp add: db_save_and_sheet setdefault_other normalize_whatsapp dict_get_def)
qed

text \<open>
  Claim C4. When the lowered message contains no keyword, \<^verbatim>\<open>ingest_whatsapp\<close> leaves
  \<^verbatim>\<open>lead_log\<close>, the sheets and the outbox as they were and keeps every lead in its place
  under its identifier. A lead whose \<^verbatim>\<open>assigned_sales_whatsapp\<close> is the sender, whatever
  its status, gets \<^verbatim>\<open>last_sales_reply_at\<close> set to the message's timestamp and status
  \<^verbatim>\<open>"In progress"\<close>, and no field other than these two and \<^verbatim>\<open>updated_at\<close> changes; every
  other lead is unchanged.
\<close>

theorem handler_reply_updates_matching_leads:
  assumes miss: "\<not> (\<exists>k\<in>set KEYWORDS. \<exists>ps ss. lower (wa_message msg) = ps @ k @ ss)"
  shows "db (snd (ingest_whatsapp e msg w)) ''lead_log'' = db w ''lead_log''
    \<and> outbox (snd (ingest_whatsapp e msg w)) = outbox w
    \<and> log_sheet (snd (ingest_whatsapp e msg w)) = log_sheet w
    \<and> length (db (snd (ingest_whatsapp e msg w)) ''lead'') = length (db w ''lead'')
    \<and> (\<forall>n < length (db w ''lead'').
         fst (db (snd (ingest_whatsapp e msg w)) ''lead'' ! n) = fst (db w ''lead'' ! n) \<and>
         (if dict_get (snd (db w ''lead'' ! n)) ''assigned_sales_whatsapp'' = PStr (wa_from_number msg)
          then snd (db (snd (ingest_whatsapp e msg w)) ''lead'' ! n) ''last_sales_reply_at''
                 = Some (PTime (wa_timestamp msg))
             \<and> snd (db (snd (ingest_whatsapp e msg w)) ''lead'' ! n) ''status''
                 = Some (PStr ''In progress'')
             \<and> (\<forall>k. k \<notin> {''last_sales_reply_at'', ''status'', ''updated_at''} \<longrightarrow>
                    snd (db (snd (ingest_whatsapp e msg w)) ''lead'' ! n) k
                      = snd (db w ''lead'' ! n) k)
          else db (snd (ingest_whatsapp e msg w)) ''lead'' ! n = db w ''lead'' ! n))"
proof -
  have m: "\<not> list_ex (\<lambda>k. py_in k (lower (wa_message msg))) KEYWORDS"
    using miss by (simp add: keyword_hit_iff)
  show ?thesis
    by (simp add: ingest_whatsapp_reply [OF m] db_update_document_other db_update_document_same
          matches_assigned)
qed

text \<open>
  The witness: the handler at \<^verbatim>\<open>+60199\<close> replies; the lead assigned to that number, already
  won, is set to in progress and keeps its name; the lead of another handler is untouched.
\<close>

theorem handler_reply_updates_matching_leads_witness:
  "db (snd (ingest_whatsapp env0 msg_reply world2)) ''lead_log'' = []
   \<and> snd (db world2 ''lead'' ! 0) ''status'' = Some (PStr ''Won'')
   \<and> snd (db (snd (ingest_whatsapp env0 msg_reply world2)) ''lead'' ! 0) ''status''
       = Some (PStr ''In progress'')
   \<and> snd (db (snd (ingest_whatsapp env0 msg_reply world2)) ''lead'' ! 0) ''last_sales_reply_at''
       = Some (PTime 1699999500000000)
   \<and> snd (db (snd (ingest_whatsapp env0 msg_reply world2)) ''lead'' ! 0) ''name''
       = Some (PStr ''Ali'')
   \<and> db (snd (ingest_whatsapp env0 msg_reply world2)) ''lead'' ! 1 = db world2 ''lead'' ! 1"
proof -
  have h: "\<not> (\<exists>k\<in>set KEYWORDS. \<exists>ps ss. lower (wa_message msg_reply) = ps @ k @ ss)"
    using miss_reply by (simp add: keyword_hit_iff)
  have l: "length (db world2 ''lead'') = 2" "db world2 ''lead_log'' = []"
    by (simp_all add: world2_def)
  have a0: "dict_get (snd (db world2 ''lead'' ! 0)) ''assigned_sales_whatsapp''
              = PStr (wa_from_number msg_reply)"
    by (simp add: world2_def dict_get_def msg_reply_def)
  have a1: "dict_get (snd (db world2 ''lead'' ! 1)) ''assigned_sales_whatsapp''
              \<noteq> PStr (wa_from_number msg_reply)"
    by (simp add: world2_def dict_get_def msg_reply_def)
  have s0: "snd (db world2 ''lead'' ! 0) ''status'' = Some (PStr ''Won'')"
           "snd (db world2 ''lead'' ! 0) ''name'' = Some (PStr ''Ali'')"
    by (simp_all add: world2_def lead1_def normalize_lead_def Let_def dict_get_def py_or_def)
  have t: "wa_timestamp msg_reply = 1699999500000000"
    by (simp add: msg_reply_def)
  note main = handler_reply_updates_matching_leads [OF h, of env0 world2]
  from main l have n0: "(0::nat) < 2 \<longrightarrow>
      snd (db (snd (ingest_whatsapp env0 msg_reply world2)) ''lead'' ! 0) ''last_sales_reply_at''
        = Some (PTime (wa_timestamp msg_reply))
      \<and> snd (db (snd (ingest_whatsapp env0 msg_reply world2)) ''lead'' ! 0) ''status''
        = Some (PStr ''In progress'')
      \<and> snd (db (snd (ingest_whatsapp env0 msg_reply world2)) ''lead'' ! 0) ''name''
        = snd (db world2 ''lead'' ! 0) ''name''"
    using a0 by auto
  from main l have n1: "(1::nat) < 2 \<longrightarrow>
      db (snd (ingest_whatsapp env0 msg_reply world2)) ''lead'' ! 1 = db world2 ''lead'' ! 1"
    using a1 by auto
  from main l have lg: "db (snd (ingest_whatsapp env0 msg_reply world2)) ''lead_log'' = []"
    by simp
  show ?thesis using n0 n1 lg s0 t by simp
qed

section \<open>The follow-up scan\<close>

































section \<open>The daily summary\<close>





















end
